theory Spec2Isabelle
  imports Complex_Main "HOL-Library.List_Lexorder" "HOL-Library.Char_ord"
begin

section \<open>Data model\<close>

text \<open>
  The script \<^verbatim>\<open>part1_script.py\<close> works on pandas data frames, a dictionary of filter
  options and a plotly figure. A data frame is kept column by column, as pandas does: a
  list of row labels and an association list from column label to the column's cells.
  Several columns may carry the same label; a cell is \<open>None\<close> where pandas has NaN.
  Every column of a frame has one cell for each row label.

  The cells are floating-point numbers in the script. Their arithmetic is left open: the
  rounding function of \<^verbatim>\<open>DataFrame.round(1)\<close> and the mean of \<^verbatim>\<open>DataFrame.mean(axis=1)\<close>
  are parameters \<open>rnd\<close> and \<open>mean\<close> of the functions that call them, and the
  cell type is a type variable.
\<close>

datatype py_error = ValueError | KeyError | IndexError

text \<open>The three values plotly takes for \<^verbatim>\<open>visible\<close>: \<^verbatim>\<open>True\<close>, \<^verbatim>\<open>False\<close>, \<^verbatim>\<open>'legendonly'\<close>.\<close>

datatype visible = VTrue | VFalse | LegendOnly

record button =
  label :: string
  restyle_method :: string
  args :: "string \<times> visible list"

record menu =
  menu_type :: string
  direction :: string
  buttons :: "button list"

record figure =
  traces :: "(string \<times> visible) list"
  updatemenus :: "menu list"

record 'v frame =
  index :: "string list"
  cols :: "(string \<times> 'v option list) list"

text \<open>What the script leaves behind: the figures shown and the files written.\<close>

record env =
  displayed :: "figure list"
  files :: "string \<rightharpoonup> figure"

text \<open>
  A Python dictionary keeps its keys in insertion order and has each key once: an
  association list whose keys are distinct.
\<close>

type_synonym filter_options = "(string \<times> string list) list"

definition columns :: "'v frame \<Rightarrow> string list" where
  "columns df = map fst (cols df)"

definition dict_get :: "('k \<times> 'a) list \<Rightarrow> 'k \<Rightarrow> py_error + 'a" where
  "dict_get d k = (case map_of d k of None \<Rightarrow> Inl KeyError | Some v \<Rightarrow> Inr v)"

section \<open>create_chart\<close>

text \<open>
  The inner loop of \<^verbatim>\<open>create_chart\<close> (lines 31 to 40): one entry is appended to
  \<^verbatim>\<open>visibility_list\<close> for each column; \<^verbatim>\<open>filter_options[category_name]\<close> is looked up
  at each column.
\<close>

fun visibility_loop ::
  "filter_options \<Rightarrow> string \<Rightarrow> string list \<Rightarrow> visible list \<Rightarrow> py_error + visible list" where
  "visibility_loop fo category_name [] visibility_list = Inr visibility_list"
| "visibility_loop fo category_name (col # rest) visibility_list =
     (case dict_get fo category_name of
        Inl e \<Rightarrow> Inl e
      | Inr opts \<Rightarrow>
          if col \<in> set opts then
            (if col = ''Country_Avg_line'' then
               visibility_loop fo category_name rest (visibility_list @ [VTrue])
             else if category_name = ''Countries'' then
               visibility_loop fo category_name rest (visibility_list @ [LegendOnly])
             else
               visibility_loop fo category_name rest (visibility_list @ [VTrue]))
          else
            visibility_loop fo category_name rest (visibility_list @ [VFalse]))"

text \<open>The outer loop (lines 29 to 43) over \<^verbatim>\<open>filter_options.keys()\<close>.\<close>

fun category_loop ::
  "filter_options \<Rightarrow> string list \<Rightarrow> string list \<Rightarrow> string list \<times> visible list list \<Rightarrow>
   py_error + (string list \<times> visible list list)" where
  "category_loop fo [] df_columns (category_list, category_visibility_list) =
     Inr (category_list, category_visibility_list)"
| "category_loop fo (category_name # rest) df_columns (category_list, category_visibility_list) =
     (case visibility_loop fo category_name df_columns [] of
        Inl e \<Rightarrow> Inl e
      | Inr visibility_list \<Rightarrow>
          category_loop fo rest df_columns
            (category_list @ [category_name], category_visibility_list @ [visibility_list]))"

text \<open>
  The loop over \<^verbatim>\<open>enumerate(category_list)\<close> (lines 47 to 49);
  \<^verbatim>\<open>category_visibility_list[i]\<close> raises IndexError out of range.
\<close>

fun button_loop ::
  "nat \<Rightarrow> string list \<Rightarrow> visible list list \<Rightarrow> button list \<Rightarrow> py_error + button list" where
  "button_loop i [] category_visibility_list bs = Inr bs"
| "button_loop i (g # rest) category_visibility_list bs =
     (if i < length category_visibility_list then
        button_loop (Suc i) rest category_visibility_list
          (bs @ [\<lparr>label = g, restyle_method = ''restyle'',
                  args = (''visible'', category_visibility_list ! i)\<rparr>])
      else Inl IndexError)"

text \<open>The button of the union of all categories (lines 52 to 54).\<close>

definition all_button :: "string list \<Rightarrow> button" where
  "all_button df_columns =
     \<lparr>label = ''All'', restyle_method = ''restyle'',
      args = (''visible'', map (\<lambda>i. LegendOnly) [0..<length df_columns])\<rparr>"

definition build_buttons :: "filter_options \<Rightarrow> string list \<Rightarrow> py_error + button list" where
  "build_buttons fo df_columns =
     (case category_loop fo (map fst fo) df_columns ([], []) of
        Inl e \<Rightarrow> Inl e
      | Inr (category_list, category_visibility_list) \<Rightarrow>
          (case button_loop 0 category_list category_visibility_list [] of
             Inl e \<Rightarrow> Inl e
           | Inr bs \<Rightarrow> Inr ([all_button df_columns] @ bs)))"

text \<open>
  The figure: one trace for each column, all of them \<^verbatim>\<open>'legendonly'\<close> (line 24), and the
  one dropdown menu of line 57. The axis labels, the title and the plotted values are
  left out.
\<close>

definition line_figure :: "'v frame \<Rightarrow> button list \<Rightarrow> figure" where
  "line_figure df bs =
     \<lparr>traces = map (\<lambda>c. (c, LegendOnly)) (columns df),
      updatemenus = [\<lparr>menu_type = ''dropdown'', direction = ''down'', buttons = bs\<rparr>]\<rparr>"

text \<open>\<^verbatim>\<open>fig.show()\<close> and \<^verbatim>\<open>fig.write_html('visual.html')\<close>, the last two statements.\<close>

definition show_and_write :: "figure \<Rightarrow> env \<Rightarrow> env" where
  "show_and_write fig e =
     e\<lparr>displayed := displayed e @ [fig], files := (files e)(''visual.html'' \<mapsto> fig)\<rparr>"

definition create_chart :: "filter_options \<Rightarrow> 'v frame \<Rightarrow> env \<Rightarrow> (py_error + unit) \<times> env" where
  "create_chart fo df e =
     (case build_buttons fo (columns df) of
        Inl err \<Rightarrow> (Inl err, e)
      | Inr bs \<Rightarrow> (Inr (), show_and_write (line_figure df bs) e))"



section \<open>preprocess_df\<close>

text \<open>A column or a row has a value that is not null.\<close>

definition notna_any :: "'v option list \<Rightarrow> bool" where
  "notna_any c = list_ex (\<lambda>v. \<not> Option.is_none v) c"

text \<open>\<^verbatim>\<open>df.dropna(axis=1, how='all')\<close>: the columns that have a value are kept.\<close>

definition dropna_columns_all :: "'v frame \<Rightarrow> 'v frame" where
  "dropna_columns_all df = df\<lparr>cols := filter (\<lambda>(l, c). notna_any c) (cols df)\<rparr>"

text \<open>
  \<^verbatim>\<open>df[labels]\<close> with a list of labels: for each label in turn every column that carries
  it, KeyError when a label is on no column.
\<close>

definition select_columns :: "string list \<Rightarrow> 'v frame \<Rightarrow> py_error + 'v frame" where
  "select_columns labels df =
     (if set labels \<subseteq> set (columns df) then
        Inr (df\<lparr>cols := concat (map (\<lambda>l. filter (\<lambda>(c, _). c = l) (cols df)) labels)\<rparr>)
      else Inl KeyError)"

text \<open>The cells of row \<open>i\<close>, one for each column.\<close>

definition row_at :: "'v frame \<Rightarrow> nat \<Rightarrow> 'v option list" where
  "row_at df i = map (\<lambda>(l, c). c ! i) (cols df)"

text \<open>Selection by a boolean mask.\<close>

definition keep_mask :: "bool list \<Rightarrow> 'a list \<Rightarrow> 'a list" where
  "keep_mask bs xs = map snd (filter fst (zip bs xs))"

text \<open>
  \<^verbatim>\<open>df.dropna(subset=subset, how='all')\<close>: the columns of the subset are taken (KeyError
  when one is missing), and a row is kept when it has a value in one of them.
\<close>

definition dropna_rows_all :: "string list \<Rightarrow> 'v frame \<Rightarrow> py_error + 'v frame" where
  "dropna_rows_all subset_labels df =
     (case select_columns subset_labels df of
        Inl e \<Rightarrow> Inl e
      | Inr agg_obj \<Rightarrow>
          let row_mask = map (\<lambda>i. notna_any (row_at agg_obj i)) [0..<length (index df)]
          in Inr \<lparr>index = keep_mask row_mask (index df),
                  cols = map (\<lambda>(l, c). (l, keep_mask row_mask c)) (cols df)\<rparr>)"

text \<open>
  \<^verbatim>\<open>str.replace("YR", "", regex=True)\<close> on one label: every occurrence of the two
  characters is deleted, scanning from the left, and the scan goes on after the
  occurrence.
\<close>

fun str_replace_YR :: "string \<Rightarrow> string" where
  "str_replace_YR [] = []"
| "str_replace_YR [c] = [c]"
| "str_replace_YR (c # d # s) =
     (if c = CHR ''Y'' \<and> d = CHR ''R'' then str_replace_YR s else c # str_replace_YR (d # s))"

definition set_columns :: "(string \<Rightarrow> string) \<Rightarrow> 'v frame \<Rightarrow> 'v frame" where
  "set_columns f df = df\<lparr>cols := map (\<lambda>(l, c). (f l, c)) (cols df)\<rparr>"

text \<open>\<^verbatim>\<open>df.round(1)\<close>, with the rounding of one number as the parameter \<open>rnd\<close>.\<close>

definition round_frame :: "('v \<Rightarrow> 'v) \<Rightarrow> 'v frame \<Rightarrow> 'v frame" where
  "round_frame rnd df = df\<lparr>cols := map (\<lambda>(l, c). (l, map (map_option rnd) c)) (cols df)\<rparr>"

text \<open>\<^verbatim>\<open>df.T\<close>: the column labels become the row labels and each row becomes a column.\<close>

definition transpose_frame :: "'v frame \<Rightarrow> 'v frame" where
  "transpose_frame df =
     \<lparr>index = columns df,
      cols = map (\<lambda>(i, name). (name, row_at df i)) (zip [0..<length (index df)] (index df))\<rparr>"

text \<open>
  \<^verbatim>\<open>preprocess_df\<close>, statement by statement (lines 107 to 120). The printing and the
  names of the axes are left out.
\<close>

definition preprocess_df :: "('v \<Rightarrow> 'v) \<Rightarrow> 'v frame \<Rightarrow> py_error + 'v frame" where
  "preprocess_df rnd df =
     (let df1 = dropna_columns_all df;
          cols_to_check = columns df1
      in case dropna_rows_all cols_to_check df1 of
           Inl e \<Rightarrow> Inl e
         | Inr df2 \<Rightarrow>
             let df3 = set_columns str_replace_YR df2;
                 df4 = round_frame rnd df3;
                 df5 = transpose_frame df4
             in Inr df5)"

subsection \<open>The steps as the specification words them\<close>

text \<open>A row that is entirely null across the columns of the frame is dropped.\<close>

definition spec_drop_null_rows :: "'v frame \<Rightarrow> 'v frame" where
  "spec_drop_null_rows df =
     (let keep = map (\<lambda>i. \<exists>lc \<in> set (cols df). snd lc ! i \<noteq> None) [0..<length (index df)]
      in \<lparr>index = keep_mask keep (index df),
          cols = map (\<lambda>(l, c). (l, keep_mask keep c)) (cols df)\<rparr>)"

text \<open>A column that is entirely null is dropped.\<close>

definition spec_drop_null_columns :: "'v frame \<Rightarrow> 'v frame" where
  "spec_drop_null_columns df = df\<lparr>cols := filter (\<lambda>(l, c). \<exists>v \<in> set c. v \<noteq> None) (cols df)\<rparr>"

text \<open>Stripping the prefix token: a label that starts with \<open>YR\<close> loses these two characters.\<close>

definition spec_strip_prefix_YR :: "string \<Rightarrow> string" where
  "spec_strip_prefix_YR l = (if take 2 l = ''YR'' then drop 2 l else l)"

text \<open>The five steps in the order of the specification, with the renaming as a parameter.\<close>

definition spec_steps :: "(string \<Rightarrow> string) \<Rightarrow> ('v \<Rightarrow> 'v) \<Rightarrow> 'v frame \<Rightarrow> 'v frame" where
  "spec_steps rename rnd df =
     transpose_frame (round_frame rnd (set_columns rename
       (spec_drop_null_rows (spec_drop_null_columns df))))"

section \<open>main\<close>

text \<open>\<^verbatim>\<open>list.index\<close>: the position of the first occurrence, ValueError when there is none.\<close>

fun list_index :: "'a list \<Rightarrow> 'a \<Rightarrow> py_error + nat" where
  "list_index [] x = Inl ValueError"
| "list_index (y # ys) x =
     (if y = x then Inr 0
      else case list_index ys x of Inl e \<Rightarrow> Inl e | Inr i \<Rightarrow> Inr (Suc i))"

text \<open>\<^verbatim>\<open>df.mean(axis=1)\<close>, with the mean of one row as the parameter \<open>mean\<close>.\<close>

definition mean_axis1 :: "('v option list \<Rightarrow> 'v option) \<Rightarrow> 'v frame \<Rightarrow> 'v option list" where
  "mean_axis1 mean df = map (\<lambda>i. mean (row_at df i)) [0..<length (index df)]"

text \<open>
  \<^verbatim>\<open>df[key] = value\<close>: every column that carries the label takes the value; a label on no
  column becomes a new last column.
\<close>

definition setitem :: "string \<Rightarrow> 'v option list \<Rightarrow> 'v frame \<Rightarrow> 'v frame" where
  "setitem key val df =
     (if key \<in> set (columns df) then
        df\<lparr>cols := map (\<lambda>(l, c). if l = key then (l, val) else (l, c)) (cols df)\<rparr>
      else df\<lparr>cols := cols df @ [(key, val)]\<rparr>)"

definition income_grps :: "string list" where
  "income_grps = [''Low income'', ''Lower middle income'', ''Upper middle income'', ''High income'']"

definition region_grps :: "string list" where
  "region_grps =
     [''East Asia & Pacific'', ''Europe & Central Asia'', ''Latin America & Caribbean'',
      ''Middle East & North Africa'', ''North America'', ''South Asia'', ''Sub-Saharan Africa'']"

text \<open>Lines 150 to 152: the country labels and the frame with the column of their mean.\<close>

definition country_average ::
  "('v option list \<Rightarrow> 'v option) \<Rightarrow> 'v frame \<Rightarrow> py_error + (string list \<times> 'v frame)" where
  "country_average mean sanit_df =
     (case list_index (columns sanit_df) ''World'' of
        Inl e \<Rightarrow> Inl e
      | Inr world_index \<Rightarrow>
          (let countries = sort (take world_index (columns sanit_df))
           in (case select_columns countries sanit_df of
                 Inl e \<Rightarrow> Inl e
               | Inr sel \<Rightarrow>
                   Inr (countries,
                        setitem ''Country_Avg_line'' (mean_axis1 mean sel) sanit_df))))"

text \<open>Lines 150 to 163: the filter options and the frame that \<^verbatim>\<open>create_chart\<close> is given.\<close>

definition chart_inputs ::
  "('v option list \<Rightarrow> 'v option) \<Rightarrow> 'v frame \<Rightarrow> py_error + (filter_options \<times> 'v frame)" where
  "chart_inputs mean sanit_df =
     (case country_average mean sanit_df of
        Inl e \<Rightarrow> Inl e
      | Inr (countries0, sanit_df1) \<Rightarrow>
          (let countries = [''Country_Avg_line''] @ countries0
           in (case select_columns (countries @ region_grps @ income_grps) sanit_df1 of
                 Inl e \<Rightarrow> Inl e
               | Inr sanit_df2 \<Rightarrow>
                   Inr ([(''Countries'', countries), (''Income Groups'', income_grps),
                         (''Regions'', region_grps)], sanit_df2))))"

text \<open>
  \<^verbatim>\<open>main\<close> from line 147 on, from the fetched frame whose row labels are the countries.
  An error ends the run where it is raised, with the environment as it was then.
\<close>

definition main :: "('v \<Rightarrow> 'v) \<Rightarrow> ('v option list \<Rightarrow> 'v option) \<Rightarrow> 'v frame \<Rightarrow> env \<Rightarrow> (py_error + unit) \<times> env" where
  "main rnd mean fetched e =
     (case preprocess_df rnd fetched of
        Inl err \<Rightarrow> (Inl err, e)
      | Inr sanit_df \<Rightarrow>
          (case chart_inputs mean sanit_df of
             Inl err \<Rightarrow> (Inl err, e)
           | Inr (fo, df) \<Rightarrow> create_chart fo df e))"

text \<open>The categories of the filter options that list a column label.\<close>

definition categories_of :: "filter_options \<Rightarrow> string \<Rightarrow> string list" where
  "categories_of fo col = map fst (filter (\<lambda>(k, opts). col \<in> set opts) fo)"

section \<open>Closed forms and example inputs\<close>



definition no_output :: env where
  "no_output = \<lparr>displayed = [], files = Map.empty\<rparr>"



text \<open>
  A fetched frame with three countries and three year columns: the first column is
  entirely null, the second row is entirely null, and the last label carries \<open>YR\<close>
  at its end.
\<close>

definition raw_frame :: "rat frame" where
  "raw_frame =
     \<lparr>index = [''Chad'', ''Nowhere'', ''World''],
      cols = [(''YR1999'', [None, None, None]),
              (''YR2000'', [Some 11, None, Some 40]),
              (''2001YR'', [Some 12, None, Some 41])]\<rparr>"

text \<open>
  The exact mean of the values of a row that are not null, null when there is none: the
  parameter \<open>mean\<close> of the examples, on rational cells.
\<close>

definition mean_skipna :: "rat option list \<Rightarrow> rat option" where
  "mean_skipna r =
     (let vs = concat (map (\<lambda>x. case x of None \<Rightarrow> [] | Some v \<Rightarrow> [v]) r)
      in if vs = [] then None else Some (sum_list vs / of_nat (length vs)))"

text \<open>
  A reshaped frame of two years: two countries before "World", then a column that is in
  no list, then the regions and the income groups.
\<close>

definition reshaped_frame :: "rat frame" where
  "reshaped_frame =
     \<lparr>index = [''2000'', ''2001''],
      cols = [(''Chad'', [Some 10, Some 12]), (''Bhutan'', [Some 60, None]),
              (''World'', [Some 50, Some 51]), (''Arab World'', [Some 70, Some 71]),
              (''East Asia & Pacific'', [Some 1, Some 2]),
              (''Europe & Central Asia'', [Some 3, Some 4]),
              (''Latin America & Caribbean'', [Some 5, Some 6]),
              (''Middle East & North Africa'', [Some 7, Some 8]),
              (''North America'', [Some 9, Some 10]),
              (''South Asia'', [Some 11, Some 12]),
              (''Sub-Saharan Africa'', [Some 13, Some 14]),
              (''Low income'', [Some 15, Some 16]),
              (''Lower middle income'', [Some 17, Some 18]),
              (''Upper middle income'', [Some 19, Some 20]),
              (''High income'', [Some 21, Some 22])]\<rparr>"

text \<open>
  A reshaped frame of one year in which the column before "World" carries the label of an
  income group.
\<close>

definition overlap_frame :: "rat frame" where
  "overlap_frame =
     \<lparr>index = [''2000''],
      cols = [(''High income'', [Some 90]),
              (''World'', [Some 50]),
              (''East Asia & Pacific'', [Some 1]),
              (''Europe & Central Asia'', [Some 3]),
              (''Latin America & Caribbean'', [Some 5]),
              (''Middle East & North Africa'', [Some 7]),
              (''North America'', [Some 9]),
              (''South Asia'', [Some 11]),
              (''Sub-Saharan Africa'', [Some 13]),
              (''Low income'', [Some 15]),
              (''Lower middle income'', [Some 17]),
              (''Upper middle income'', [Some 19])]\<rparr>"

text \<open>The filter options and the frame that \<^verbatim>\<open>main\<close> gives to \<^verbatim>\<open>create_chart\<close> for \<open>reshaped_frame\<close>.\<close>

definition chart_options :: filter_options where
  "chart_options =
     [(''Countries'', [''Country_Avg_line'', ''Bhutan'', ''Chad'']),
      (''Income Groups'', income_grps), (''Regions'', region_grps)]"

definition chart_frame :: "rat frame" where
  "chart_frame =
     \<lparr>index = [''2000'', ''2001''],
      cols = [(''Country_Avg_line'', [Some 35, Some 12]),
              (''Bhutan'', [Some 60, None]), (''Chad'', [Some 10, Some 12]),
              (''East Asia & Pacific'', [Some 1, Some 2]),
              (''Europe & Central Asia'', [Some 3, Some 4]),
              (''Latin America & Caribbean'', [Some 5, Some 6]),
              (''Middle East & North Africa'', [Some 7, Some 8]),
              (''North America'', [Some 9, Some 10]),
              (''South Asia'', [Some 11, Some 12]),
              (''Sub-Saharan Africa'', [Some 13, Some 14]),
              (''Low income'', [Some 15, Some 16]),
              (''Lower middle income'', [Some 17, Some 18]),
              (''Upper middle income'', [Some 19, Some 20]),
              (''High income'', [Some 21, Some 22])]\<rparr>"

section \<open>The loops of create_chart in closed form\<close>











section \<open>The visibility vectors\<close>









section \<open>The reshaping of the fetched frame\<close>

lemma notna_any_iff: "notna_any c \<longleftrightarrow> (\<exists>v \<in> set c. v \<noteq> None)"
  by (simp add: notna_any_def list_ex_iff Option.is_none_def)

lemma dropna_columns_all_spec: "dropna_columns_all df = spec_drop_null_columns df"
  by (simp add: dropna_columns_all_def spec_drop_null_columns_def notna_any_iff)

lemma set_select_all:
  "set (concat (map (\<lambda>l. filter (\<lambda>(c, _). c = l) xs) (map fst xs))) = set xs"
  by auto

lemma select_columns_all:
  "\<exists>agg. select_columns (columns df) df = Inr agg \<and> set (cols agg) = set (cols df)"
  unfolding select_columns_def columns_def using set_select_all [of "cols df"] by simp

lemma notna_any_row_at:
  "notna_any (row_at df i) \<longleftrightarrow> (\<exists>lc \<in> set (cols df). snd lc ! i \<noteq> None)"
  by (force simp: notna_any_iff row_at_def case_prod_beta)

lemma dropna_rows_all_spec:
  "dropna_rows_all (columns df) df = Inr (spec_drop_null_rows df)"
proof -
  obtain agg where a: "select_columns (columns df) df = Inr agg"
    and s: "set (cols agg) = set (cols df)"
    using select_columns_all by blast
  have "notna_any (row_at agg i) \<longleftrightarrow> (\<exists>lc \<in> set (cols df). snd lc ! i \<noteq> None)" for i
    by (simp add: notna_any_row_at s)
  then show ?thesis
    by (simp add: dropna_rows_all_def a spec_drop_null_rows_def Let_def)
qed

lemma preprocess_df_spec_steps:
  "preprocess_df rnd df = Inr (spec_steps str_replace_YR rnd df)"
  by (simp add: preprocess_df_def Let_def dropna_rows_all_spec spec_steps_def
      dropna_columns_all_spec)

text \<open>
  On a year label as the data source writes it, \<open>YR\<close> followed by characters without
  \<open>Y\<close>, deleting every occurrence and stripping the prefix give the same label.
\<close>

lemma year_label:
  "CHR ''Y'' \<notin> set s \<Longrightarrow>
   str_replace_YR (''YR'' @ s) = s \<and> spec_strip_prefix_YR (''YR'' @ s) = s"
proof -
  assume "CHR ''Y'' \<notin> set s"
  then have "str_replace_YR s = s"
    by (induction s rule: str_replace_YR.induct) auto
  then show ?thesis by (simp add: spec_strip_prefix_YR_def)
qed




text \<open>
  Claim C6. For a frame with a column that is entirely null, line 107 keeps the columns
  that have a value and no other, and the row index of the result of \<^verbatim>\<open>preprocess_df\<close>
  is made of their renamed labels, in their order: the columns that are entirely null are
  gone, every other column is kept, and the number of rows of the result is the number of
  columns less those that are entirely null.
\<close>

theorem all_null_columns_removed:
  assumes "\<exists>lc \<in> set (cols df). \<forall>v \<in> set (snd lc). v = None"
  shows "\<exists>out. preprocess_df rnd df = Inr out \<and>
           cols (dropna_columns_all df) =
             filter (\<lambda>lc. \<not> (\<forall>v \<in> set (snd lc). v = None)) (cols df) \<and>
           index out =
             map str_replace_YR
               (map fst (filter (\<lambda>lc. \<not> (\<forall>v \<in> set (snd lc). v = None)) (cols df))) \<and>
           length (index out) + length (filter (\<lambda>lc. \<forall>v \<in> set (snd lc). v = None) (cols df)) =
             length (cols df)"
proof -
  let ?out = "spec_steps str_replace_YR rnd df"
  have f: "filter (\<lambda>(l, c). \<exists>v \<in> set c. v \<noteq> None) (cols df) =
      filter (\<lambda>lc. \<not> (\<forall>v \<in> set (snd lc). v = None)) (cols df)"
    by (rule filter_cong) auto
  have d: "cols (dropna_columns_all df) =
      filter (\<lambda>lc. \<not> (\<forall>v \<in> set (snd lc). v = None)) (cols df)"
    unfolding dropna_columns_all_spec spec_drop_null_columns_def f [symmetric] by simp
  have "index ?out =
      map str_replace_YR (map fst (filter (\<lambda>(l, c). \<exists>v \<in> set c. v \<noteq> None) (cols df)))"
    by (simp add: spec_steps_def transpose_frame_def columns_def round_frame_def
        set_columns_def spec_drop_null_rows_def spec_drop_null_columns_def Let_def comp_def
        case_prod_beta)
  then have i: "index ?out =
      map str_replace_YR
        (map fst (filter (\<lambda>lc. \<not> (\<forall>v \<in> set (snd lc). v = None)) (cols df)))"
    unfolding f .
  have "length (index ?out) +
      length (filter (\<lambda>lc. \<forall>v \<in> set (snd lc). v = None) (cols df)) = length (cols df)"
    unfolding i using sum_length_filter_compl [of "\<lambda>lc. \<forall>v \<in> set (snd lc). v = None" "cols df"]
    by simp
  with i d show ?thesis
    using preprocess_df_spec_steps [of rnd df] by blast
qed

theorem all_null_columns_removed_witness:
  "\<exists>out. preprocess_df (\<lambda>x. x) raw_frame = Inr out \<and>
           cols (dropna_columns_all raw_frame) =
             filter (\<lambda>lc. \<not> (\<forall>v \<in> set (snd lc). v = None)) (cols raw_frame) \<and>
           index out =
             map str_replace_YR
               (map fst (filter (\<lambda>lc. \<not> (\<forall>v \<in> set (snd lc). v = None)) (cols raw_frame))) \<and>
           length (index out) +
             length (filter (\<lambda>lc. \<forall>v \<in> set (snd lc). v = None) (cols raw_frame)) =
             length (cols raw_frame)"
  by (rule all_null_columns_removed) (simp add: raw_frame_def)

section \<open>From the reshaped frame to the chart\<close>

lemma list_index_absent: "x \<notin> set xs \<Longrightarrow> list_index xs x = Inl ValueError"
  by (induction xs) auto

lemma list_index_present:
  "x \<in> set xs \<Longrightarrow>
   \<exists>i. list_index xs x = Inr i \<and> i < length xs \<and> xs ! i = x \<and> x \<notin> set (take i xs)"
proof (induction xs)
  case Nil
  then show ?case by simp
next
  case (Cons y ys)
  show ?case
  proof (cases "y = x")
    case True
    then show ?thesis by simp
  next
    case False
    with Cons obtain i where "list_index ys x = Inr i" "i < length ys" "ys ! i = x"
      "x \<notin> set (take i ys)" by auto
    with False show ?thesis by (intro exI [of _ "Suc i"]) auto
  qed
qed

text \<open>
  Claim C8. When the reshaped frame has no column labelled "World", \<^verbatim>\<open>list.index\<close>
  raises ValueError at line 150 and the run ends there: nothing is shown, no file is
  written, and the environment is what it was before the run.
\<close>

theorem missing_world_raises:
  assumes "preprocess_df rnd fetched = Inr sanit_df"
    and "''World'' \<notin> set (columns sanit_df)"
  shows "main rnd mean fetched e = (Inl ValueError, e)"
  using assms
  by (simp add: main_def chart_inputs_def country_average_def list_index_absent)

theorem missing_world_raises_witness:
  "main (\<lambda>x. x) mean_skipna \<lparr>index = [], cols = []\<rparr> no_output = (Inl ValueError, no_output)"
  by (rule missing_world_raises [where sanit_df = "\<lparr>index = [], cols = []\<rparr>"])
     (simp_all add: preprocess_df_def dropna_columns_all_def dropna_rows_all_def
        select_columns_def columns_def keep_mask_def set_columns_def round_frame_def
        transpose_frame_def)

lemma filter_label_one:
  "distinct (map fst xs) \<Longrightarrow> (l, c) \<in> set xs \<Longrightarrow> filter (\<lambda>(c', _). c' = l) xs = [(l, c)]"
  by (induction xs) (auto simp: image_iff filter_empty_conv)

lemma select_sublist:
  "distinct (map fst xs) \<Longrightarrow> set ys \<subseteq> set xs \<Longrightarrow>
   concat (map (\<lambda>l. filter (\<lambda>(c, _). c = l) xs) (map fst ys)) = ys"
proof (induction ys)
  case Nil
  then show ?case by simp
next
  case (Cons y ys)
  obtain l c where y: "y = (l, c)" by (cases y)
  with Cons.prems have "filter (\<lambda>(c', _). c' = l) xs = [(l, c)]"
    by (simp add: filter_label_one)
  with Cons y show ?case by simp
qed

lemma map_insort_key: "map f (insort_key f x ys) = insort (f x) (map f ys)"
  by (induction ys) auto

lemma map_sort_key: "map f (sort_key f xs) = sort (map f xs)"
  by (induction xs) (auto simp: map_insort_key)

lemma select_countries:
  assumes "distinct (columns df)"
  shows "select_columns (sort (take wi (columns df))) df =
           Inr (df\<lparr>cols := sort_key fst (take wi (cols df))\<rparr>)"
proof -
  let ?ys = "sort_key fst (take wi (cols df))"
  have l: "sort (take wi (columns df)) = map fst ?ys"
    by (simp add: map_sort_key columns_def take_map)
  have s: "set ?ys \<subseteq> set (cols df)"
    by (auto dest: in_set_takeD)
  then have "set (map fst ?ys) \<subseteq> set (columns df)"
    unfolding columns_def by auto
  moreover have "concat (map (\<lambda>l. filter (\<lambda>(c, _). c = l) (cols df)) (map fst ?ys)) = ?ys"
    using assms s by (intro select_sublist) (simp_all add: columns_def)
  ultimately show ?thesis
    unfolding l select_columns_def by simp
qed




lemma columns_setitem:
  "columns (setitem k v df) = (if k \<in> set (columns df) then columns df else columns df @ [k])"
proof -
  have "map fst (map (\<lambda>(l, c). if l = k then (l, v) else (l, c)) xs) = map fst xs"
    for xs :: "(string \<times> 'a option list) list"
    by (induction xs) auto
  then show ?thesis by (simp add: setitem_def columns_def)
qed

lemma distinct_columns_setitem:
  "distinct (columns df) \<Longrightarrow> distinct (columns (setitem k v df))"
  by (simp add: columns_setitem)

lemma labels_select:
  "distinct (map fst xs) \<Longrightarrow> set ls \<subseteq> fst ` set xs \<Longrightarrow>
   map fst (concat (map (\<lambda>l. filter (\<lambda>(c, _). c = l) xs) ls)) = ls"
proof (induction ls)
  case Nil
  then show ?case by simp
next
  case (Cons l ls)
  then obtain c where "(l, c) \<in> set xs" by auto
  with Cons.prems have "filter (\<lambda>(c', _). c' = l) xs = [(l, c)]"
    by (simp add: filter_label_one)
  with Cons show ?case by simp
qed

lemma select_columns_labels:
  assumes "distinct (columns d)" and "select_columns ls d = Inr d'"
  shows "columns d' = ls"
proof -
  from assms(2) have s: "set ls \<subseteq> set (columns d)"
    and d: "d' = d\<lparr>cols := concat (map (\<lambda>l. filter (\<lambda>(c, _). c = l) (cols d)) ls)\<rparr>"
    by (auto simp: select_columns_def split: if_splits)
  from assms(1) s show ?thesis
    unfolding d using labels_select [of "cols d" ls] by (simp add: columns_def)
qed

lemma group_labels:
  "set region_grps \<inter> set income_grps = {}"
  "''Country_Avg_line'' \<notin> set region_grps"
  "''Country_Avg_line'' \<notin> set income_grps"
  by (simp_all add: region_grps_def income_grps_def)

lemma categories_of_three:
  "categories_of [(''Countries'', cs), (''Income Groups'', gs), (''Regions'', rs)] c =
     (if c \<in> set cs then [''Countries''] else []) @
     (if c \<in> set gs then [''Income Groups''] else []) @
     (if c \<in> set rs then [''Regions''] else [])"
  by (simp add: categories_of_def)

text \<open>
  Claim C10, as the code has it. When \<^verbatim>\<open>main\<close> reaches \<^verbatim>\<open>create_chart\<close> from a
  reshaped frame with distinct column labels, the columns of the final frame are
  \<open>Country_Avg_line\<close>, the sorted labels before "World", the seven regions and the four
  income groups, in this order, and the filter options list them under "Countries",
  "Regions" and "Income Groups". Every column of the final frame is in a category and
  \<open>Country_Avg_line\<close> is in "Countries" only. Every column is in exactly one category
  when no label before "World" is the label of a region or of an income group. A label
  that is in none of the lists is on no column of the final frame.
\<close>

theorem chart_inputs_columns:
  assumes "chart_inputs mean sanit_df = Inr (fo, df)"
    and "distinct (columns sanit_df)"
  shows "\<exists>wi. wi < length (columns sanit_df) \<and> columns sanit_df ! wi = ''World'' \<and>
           columns df =
             [''Country_Avg_line''] @ sort (take wi (columns sanit_df)) @
             region_grps @ income_grps \<and>
           fo = [(''Countries'', [''Country_Avg_line''] @ sort (take wi (columns sanit_df))),
                 (''Income Groups'', income_grps), (''Regions'', region_grps)] \<and>
           (\<forall>c \<in> set (columns df). categories_of fo c \<noteq> []) \<and>
           categories_of fo ''Country_Avg_line'' = [''Countries''] \<and>
           (set (take wi (columns sanit_df)) \<inter> set (region_grps @ income_grps) = {} \<longrightarrow>
              (\<forall>c \<in> set (columns df). length (categories_of fo c) = 1)) \<and>
           (\<forall>c. c \<notin> set ([''Country_Avg_line''] @ sort (take wi (columns sanit_df)) @
                            region_grps @ income_grps) \<longrightarrow> c \<notin> set (columns df))"
proof -
  have "''World'' \<in> set (columns sanit_df)"
  proof (rule ccontr)
    assume "''World'' \<notin> set (columns sanit_df)"
    then have "chart_inputs mean sanit_df = Inl ValueError"
      by (simp add: chart_inputs_def country_average_def list_index_absent)
    with assms(1) show False by simp
  qed
  from list_index_present [OF this]
  obtain wi where w: "list_index (columns sanit_df) ''World'' = Inr wi"
    and b: "wi < length (columns sanit_df)" "columns sanit_df ! wi = ''World''"
    by (elim exE conjE)
  let ?cs = "sort (take wi (columns sanit_df))"
  let ?avg = "mean_axis1 mean (sanit_df\<lparr>cols := sort_key fst (take wi (cols sanit_df))\<rparr>)"
  let ?df1 = "setitem ''Country_Avg_line'' ?avg sanit_df"
  let ?ls = "[''Country_Avg_line''] @ ?cs @ region_grps @ income_grps"
  have ca: "country_average mean sanit_df = Inr (?cs, ?df1)"
    by (simp add: country_average_def w select_countries [OF assms(2)])
  from assms(1) have sel: "select_columns ?ls ?df1 = Inr df"
    and fo: "fo = [(''Countries'', [''Country_Avg_line''] @ ?cs),
                   (''Income Groups'', income_grps), (''Regions'', region_grps)]"
    by (auto simp: chart_inputs_def ca split: sum.splits)
  have cols: "columns df = ?ls"
    using select_columns_labels [OF distinct_columns_setitem [OF assms(2)] sel] .
  have cat: "categories_of fo c =
      (if c \<in> set ([''Country_Avg_line''] @ ?cs) then [''Countries''] else []) @
      (if c \<in> set income_grps then [''Income Groups''] else []) @
      (if c \<in> set region_grps then [''Regions''] else [])" for c
    unfolding fo by (rule categories_of_three)
  have some: "\<forall>c \<in> set (columns df). categories_of fo c \<noteq> []"
    unfolding cols cat by auto
  have agg: "categories_of fo ''Country_Avg_line'' = [''Countries'']"
    unfolding cat using group_labels(2,3) by simp
  have one: "\<forall>c \<in> set (columns df). length (categories_of fo c) = 1"
    if "set (take wi (columns sanit_df)) \<inter> set (region_grps @ income_grps) = {}"
    unfolding cols cat using that group_labels by auto
  from b cols fo some agg one show ?thesis
    by (intro exI [of _ wi]) simp
qed

theorem chart_inputs_columns_witness:
  "\<exists>wi. wi < length (columns reshaped_frame) \<and> columns reshaped_frame ! wi = ''World'' \<and>
           columns chart_frame =
             [''Country_Avg_line''] @ sort (take wi (columns reshaped_frame)) @
             region_grps @ income_grps \<and>
           chart_options =
             [(''Countries'', [''Country_Avg_line''] @ sort (take wi (columns reshaped_frame))),
              (''Income Groups'', income_grps), (''Regions'', region_grps)] \<and>
           (\<forall>c \<in> set (columns chart_frame). categories_of chart_options c \<noteq> []) \<and>
           categories_of chart_options ''Country_Avg_line'' = [''Countries''] \<and>
           (set (take wi (columns reshaped_frame)) \<inter> set (region_grps @ income_grps) = {} \<longrightarrow>
              (\<forall>c \<in> set (columns chart_frame). length (categories_of chart_options c) = 1)) \<and>
           (\<forall>c. c \<notin> set ([''Country_Avg_line''] @ sort (take wi (columns reshaped_frame)) @
                            region_grps @ income_grps) \<longrightarrow> c \<notin> set (columns chart_frame))"
  by (rule chart_inputs_columns [where mean = mean_skipna])
     (simp_all add: chart_inputs_def country_average_def reshaped_frame_def columns_def
        select_columns_def setitem_def mean_axis1_def row_at_def mean_skipna_def
        chart_options_def chart_frame_def region_grps_def income_grps_def)

text \<open>
  Claim C10 as it is stated fails here: in \<open>overlap_frame\<close> the column before "World"
  is labelled "High income". The final frame has the columns in the order above, with
  "High income" twice, and this label is both in "Countries" and in "Income Groups".
\<close>

theorem chart_inputs_overlap:
  "(case chart_inputs mean_skipna overlap_frame of
      Inl e \<Rightarrow> None
    | Inr (fo, df) \<Rightarrow> Some (columns df, categories_of fo ''High income'')) =
   Some ([''Country_Avg_line'', ''High income'', ''East Asia & Pacific'',
          ''Europe & Central Asia'', ''Latin America & Caribbean'',
          ''Middle East & North Africa'', ''North America'', ''South Asia'',
          ''Sub-Saharan Africa'', ''Low income'', ''Lower middle income'',
          ''Upper middle income'', ''High income''],
         [''Countries'', ''Income Groups''])"
  by (simp add: chart_inputs_def country_average_def overlap_frame_def columns_def
      select_columns_def setitem_def mean_axis1_def row_at_def mean_skipna_def
      region_grps_def income_grps_def categories_of_def)

end
